theory Spec2Isabelle
  imports Main "HOL-Library.Sublist" "HOL-Library.Char_ord" "HOL-Library.List_Lexorder"
    "HOL-Library.AList"
begin

section \<open>Python strings\<close>

text \<open>
  A Python \<open>str\<close> is modelled as a \<open>string\<close>; a \<open>char\<close> stands for a code point below
  256. Python compares strings lexicographically by code point, which is the order of
  \<open>List_Lexorder\<close> over \<open>Char_ord\<close>.
\<close>

text \<open>\<open>sub in s\<close> for two strings: \<open>sub\<close> occurs in \<open>s\<close> as a contiguous block.\<close>

fun contains_str :: "string \<Rightarrow> string \<Rightarrow> bool" where
  "contains_str sub [] = (sub = [])"
| "contains_str sub (c # cs) = (prefix sub (c # cs) \<or> contains_str sub cs)"

text \<open>
  \<open>s.split(sep, maxsplit)\<close> for a one-character separator: at most \<open>maxsplit\<close> cuts, from
  the left; the last piece is the uncut remainder. The pieces are built from the right:
  a character that is not a separator goes in front of the first piece of what follows
  (\<open>cons_first\<close>; the list of pieces is never empty).
\<close>

definition cons_first :: "char \<Rightarrow> string list \<Rightarrow> string list" where
  "cons_first c pieces = (case pieces of [] \<Rightarrow> [[c]] | p # ps \<Rightarrow> (c # p) # ps)"

fun split_max :: "char \<Rightarrow> nat \<Rightarrow> string \<Rightarrow> string list" where
  "split_max sep n [] = [[]]"
| "split_max sep 0 (c # cs) = [c # cs]"
| "split_max sep (Suc n) (c # cs) =
     (if c = sep then [] # split_max sep n cs
      else cons_first c (split_max sep (Suc n) cs))"

text \<open>\<open>s.split(sep)\<close> and \<open>s.rsplit(sep)\<close> without a limit: a cut at every separator.\<close>

fun split_all :: "char \<Rightarrow> string \<Rightarrow> string list" where
  "split_all sep [] = [[]]"
| "split_all sep (c # cs) =
     (if c = sep then [] # split_all sep cs
      else cons_first c (split_all sep cs))"

text \<open>\<open>sep.join(pieces)\<close>.\<close>

fun join :: "string \<Rightarrow> string list \<Rightarrow> string" where
  "join sep [] = []"
| "join sep [x] = x"
| "join sep (x # y # ys) = x @ sep @ join sep (y # ys)"

text \<open>
  \<open>s.replace(old, new)\<close>: every non-overlapping occurrence of \<open>old\<close>, scanning from the
  left. With an empty \<open>old\<close> Python puts \<open>new\<close> before every character and at the end.
\<close>

fun str_replace :: "string \<Rightarrow> string \<Rightarrow> string \<Rightarrow> string" where
  "str_replace old new [] = (if old = [] then new else [])"
| "str_replace old new (c # cs) =
     (if old = [] then new @ c # str_replace old new cs
      else if prefix old (c # cs) then new @ str_replace old new (drop (length old - 1) cs)
      else c # str_replace old new cs)"

text \<open>
  \<open>s.strip()\<close> removes leading and trailing whitespace. Below code point 256 Python's
  whitespace is 9-13, 28-32, 133 and 160.
\<close>

definition is_space :: "char \<Rightarrow> bool" where
  "is_space c = ((of_char c :: nat) \<in> {9, 10, 11, 12, 13, 28, 29, 30, 31, 32, 133, 160})"

definition strip :: "string \<Rightarrow> string" where
  "strip s = rev (dropWhile is_space (rev (dropWhile is_space s)))"

text \<open>\<open>str(n)\<close> for a non-negative integer, as the f-string of the page URL formats it.\<close>

fun str_nat :: "nat \<Rightarrow> string" where
  "str_nat n =
     (if n < 10 then [char_of (48 + n)]
      else str_nat (n div 10) @ [char_of (48 + n mod 10)])"

declare str_nat.simps [simp del]

section \<open>Documents and the network\<close>

text \<open>
  A parsed document or element (BeautifulSoup's \<open>Tag\<close>): its attributes, its text, and
  for each CSS selector the elements below it that match, in document order. The CSS
  engine itself is the library's; a document is given together with its answers.
\<close>

datatype tag = Tag (tag_attrs: "(string \<times> string) list") (tag_text: string)
  (tag_matches: "(string \<times> tag list) list")

definition select :: "tag \<Rightarrow> string \<Rightarrow> tag list" where
  "select t sel = (case map_of (tag_matches t) sel of None \<Rightarrow> [] | Some ts \<Rightarrow> ts)"

definition select_one :: "tag \<Rightarrow> string \<Rightarrow> tag option" where
  "select_one t sel = (case select t sel of [] \<Rightarrow> None | el # _ \<Rightarrow> Some el)"

definition get_attr :: "tag \<Rightarrow> string \<Rightarrow> string option" where
  "get_attr t key = map_of (tag_attrs t) key"

text \<open>
  The web: what the \<open>k\<close>-th HTTP request of the run gets for a URL, \<open>None\<close> when
  \<open>requests.get\<close> or \<open>raise_for_status\<close> raises a \<open>RequestException\<close>. The answer may
  change from one request to the next. A parsed document is always truthy in Python
  (\<open>Tag.__bool__\<close> is constantly true), so \<open>if not soup\<close> tests for \<open>None\<close> alone.
\<close>

type_synonym web = "nat \<Rightarrow> string \<Rightarrow> tag option"

section \<open>The scraper\<close>

record asset_info =
  name :: string
  asset_url :: string
  repo_url :: string
  stars :: string
  godot_version :: string
  last_updated :: string

datatype error = AttributeError | TypeError | UnboundLocalError

datatype log_entry =
    FetchFailed string
  | ScrapeFailed error
  | ScrapingPage nat int
  | Scraped string
  | Completed nat
  | FailedUrls nat

text \<open>
  The scraper object (\<open>asset_dict\<close>, \<open>failed_urls\<close>) together with what it does to the
  outside: the number of HTTP requests issued so far and the lines written to the log.
  \<open>asset_dict\<close> is a Python dict: insertion-ordered, a stored key keeps its place.
  The field \<open>delay\<close> only sets the length of the pause after a request and is left out.
\<close>

record scraper =
  asset_dict :: "(string \<times> asset_info) list"
  failed_urls :: "string set"
  requests :: nat
  log :: "log_entry list"

definition init_scraper :: scraper where
  "init_scraper = \<lparr>asset_dict = [], failed_urls = {}, requests = 0, log = []\<rparr>"

definition BASE_URL :: string where
  "BASE_URL = ''https://godotengine.org''"

definition logging :: "log_entry \<Rightarrow> scraper \<Rightarrow> scraper" where
  "logging entry st = st\<lparr>log := log st @ [entry]\<rparr>"

definition make_request :: "web \<Rightarrow> string \<Rightarrow> scraper \<Rightarrow> tag option \<times> scraper" where
  "make_request w url st =
     (case w (requests st) url of
        Some doc \<Rightarrow> (Some doc, st\<lparr>requests := Suc (requests st)\<rparr>)
      | None \<Rightarrow> (None, logging (FetchFailed url) (st\<lparr>requests := Suc (requests st)\<rparr>)))"

definition parse_stars :: "tag \<Rightarrow> string \<Rightarrow> error + string" where
  "parse_stars soup repo =
     (if contains_str ''github'' repo then
        (case select_one soup ''.js-social-count'' of
           None \<Rightarrow> Inl AttributeError
         | Some el \<Rightarrow>
             Inr (str_replace '','' '''' (case get_attr el ''title'' of None \<Rightarrow> '''' | Some t \<Rightarrow> t)))
      else if contains_str ''gitlab'' repo then
        (case select_one soup ''.star-count'' of
           None \<Rightarrow> Inl AttributeError
         | Some el \<Rightarrow> Inr (strip (tag_text el)))
      else Inr ''0'')"

definition clean_repo_url :: "string \<Rightarrow> string" where
  "clean_repo_url repo =
     (if contains_str ''github'' repo then join ''/'' (take 5 (split_max (CHR ''/'') 5 repo))
      else repo)"

text \<open>
  Line 62: \<open>asset_url = self.BASE_URL + header.get('href')\<close>. A missing header makes
  \<open>header.get\<close> raise \<open>AttributeError\<close>, a missing href makes the concatenation raise
  \<open>TypeError\<close>; in both cases the local \<open>asset_url\<close> stays unbound.
\<close>

definition resolve_asset_url :: "tag \<Rightarrow> error + string" where
  "resolve_asset_url item =
     (case select_one item ''.asset-header'' of
        None \<Rightarrow> Inl AttributeError
      | Some header \<Rightarrow>
          (case get_attr header ''href'' of
             None \<Rightarrow> Inl TypeError
           | Some href \<Rightarrow> Inr (BASE_URL @ href)))"

text \<open>
  Lines 68-69. A link without href gives \<open>None\<close>, on which \<open>'github' in repo_url\<close> raises
  \<open>TypeError\<close>.
\<close>

definition find_repo_url :: "tag \<Rightarrow> error + string" where
  "find_repo_url asset_soup =
     (case select_one asset_soup ''.container a.btn-default'' of
        None \<Rightarrow> Inl AttributeError
      | Some a \<Rightarrow>
          (case get_attr a ''href'' of
             None \<Rightarrow> Inl TypeError
           | Some raw \<Rightarrow> Inr (clean_repo_url raw)))"

text \<open>Lines 74-81: the fields are evaluated in the order name, godot_version, last_updated.\<close>

definition build_info :: "tag \<Rightarrow> string \<Rightarrow> string \<Rightarrow> string \<Rightarrow> error + asset_info" where
  "build_info item aurl rurl st_count =
     (case select_one item ''.asset-title h4'' of
        None \<Rightarrow> Inl AttributeError
      | Some title \<Rightarrow>
          (case select_one item ''.asset-tags .label-info'' of
             None \<Rightarrow> Inl AttributeError
           | Some label \<Rightarrow>
               (case select_one item ''.asset-footer span'' of
                  None \<Rightarrow> Inl AttributeError
                | Some footer \<Rightarrow>
                    Inr \<lparr>name = strip (tag_text title),
                         asset_url = aurl,
                         repo_url = rurl,
                         stars = st_count,
                         godot_version = strip (tag_text label),
                         last_updated = strip (last (split_all (CHR ''|'') (tag_text footer)))\<rparr>)))"

text \<open>Lines 68-81, the part of the \<open>try\<close> block after the detail page has been fetched.\<close>

definition scrape_detail ::
  "web \<Rightarrow> tag \<Rightarrow> string \<Rightarrow> tag \<Rightarrow> scraper \<Rightarrow> (error + asset_info) \<times> scraper" where
  "scrape_detail w item aurl asset_soup st =
     (case find_repo_url asset_soup of
        Inl e \<Rightarrow> (Inl e, st)
      | Inr rurl \<Rightarrow>
          (case make_request w rurl st of
             (repo_soup, st1) \<Rightarrow>
               (case (case repo_soup of
                        None \<Rightarrow> Inr ''0''
                      | Some soup \<Rightarrow> parse_stars soup rurl) of
                  Inl e \<Rightarrow> (Inl e, st1)
                | Inr st_count \<Rightarrow> (build_info item aurl rurl st_count, st1))))"

text \<open>
  Lines 82-85, the \<open>except Exception\<close> handler. \<open>bound\<close> is the local \<open>asset_url\<close> if line
  62 has assigned it. Reading the unbound local raises \<open>UnboundLocalError\<close> from inside
  the handler, after the log line, and that exception leaves \<open>scrape_asset\<close>.
\<close>

definition on_exception ::
  "error \<Rightarrow> string option \<Rightarrow> scraper \<Rightarrow> (error + asset_info option) \<times> scraper" where
  "on_exception e bound st =
     (let st1 = logging (ScrapeFailed e) st in
      case bound of
        None \<Rightarrow> (Inl UnboundLocalError, st1)
      | Some aurl \<Rightarrow> (Inr None, st1\<lparr>failed_urls := insert aurl (failed_urls st1)\<rparr>))"

text \<open>\<open>Inl e\<close>: the exception \<open>e\<close> escapes; \<open>Inr None\<close>: returns \<open>None\<close>; \<open>Inr (Some a)\<close>: a record.\<close>

definition scrape_asset :: "web \<Rightarrow> tag \<Rightarrow> scraper \<Rightarrow> (error + asset_info option) \<times> scraper" where
  "scrape_asset w item st =
     (case resolve_asset_url item of
        Inl e \<Rightarrow> on_exception e None st
      | Inr aurl \<Rightarrow>
          (case make_request w aurl st of
             (None, st1) \<Rightarrow> (Inr None, st1)
           | (Some asset_soup, st1) \<Rightarrow>
               (case scrape_detail w item aurl asset_soup st1 of
                  (Inl e, st2) \<Rightarrow> on_exception e (Some aurl) st2
                | (Inr info, st2) \<Rightarrow> (Inr (Some info), st2))))"

text \<open>Lines 100-103 on the dict alone: keep the stored record only if its tag is greater.\<close>

definition merge_info :: "asset_info \<Rightarrow> (string \<times> asset_info) list \<Rightarrow> (string \<times> asset_info) list" where
  "merge_info info d =
     (case map_of d (asset_url info) of
        Some previous \<Rightarrow>
          if godot_version previous > godot_version info then d
          else AList.update (asset_url info) info d
      | None \<Rightarrow> AList.update (asset_url info) info d)"

text \<open>Lines 99-103: what the loop body does with a record.\<close>

definition store_asset :: "asset_info \<Rightarrow> scraper \<Rightarrow> scraper" where
  "store_asset info st =
     (let st1 = logging (Scraped (name info)) st in
      st1\<lparr>asset_dict := merge_info info (asset_dict st1)\<rparr>)"

text \<open>Lines 98-103: the body of the inner loop for one listing entry.\<close>

definition scrape_item :: "web \<Rightarrow> tag \<Rightarrow> scraper \<Rightarrow> (error + unit) \<times> scraper" where
  "scrape_item w item st =
     (case scrape_asset w item st of
        (Inl e, st1) \<Rightarrow> (Inl e, st1)
      | (Inr None, st1) \<Rightarrow> (Inr (), st1)
      | (Inr (Some info), st1) \<Rightarrow> (Inr (), store_asset info st1))"

fun scrape_items :: "web \<Rightarrow> tag list \<Rightarrow> scraper \<Rightarrow> (error + unit) \<times> scraper" where
  "scrape_items w [] st = (Inr (), st)"
| "scrape_items w (item # items) st =
     (case scrape_item w item st of
        (Inl e, st1) \<Rightarrow> (Inl e, st1)
      | (Inr u, st1) \<Rightarrow> scrape_items w items st1)"

definition page_url :: "nat \<Rightarrow> string" where
  "page_url page =
     BASE_URL @ ''/asset-library/asset?max_results=100&page='' @ str_nat page @ ''&sort=updated''"

text \<open>Lines 90-103: the body of the outer loop for one page index.\<close>

definition scrape_page :: "web \<Rightarrow> int \<Rightarrow> nat \<Rightarrow> scraper \<Rightarrow> (error + unit) \<times> scraper" where
  "scrape_page w max_pages page st =
     (case make_request w (page_url page) (logging (ScrapingPage (page + 1) max_pages) st) of
        (None, st1) \<Rightarrow> (Inr (), st1)
      | (Some soup, st1) \<Rightarrow> scrape_items w (select soup ''.asset-item'') st1)"

fun scrape_pages :: "web \<Rightarrow> int \<Rightarrow> nat list \<Rightarrow> scraper \<Rightarrow> (error + unit) \<times> scraper" where
  "scrape_pages w max_pages [] st = (Inr (), st)"
| "scrape_pages w max_pages (page # pages) st =
     (case scrape_page w max_pages page st of
        (Inl e, st1) \<Rightarrow> (Inl e, st1)
      | (Inr u, st1) \<Rightarrow> scrape_pages w max_pages pages st1)"

text \<open>\<open>range(max_pages)\<close> is empty for a negative bound.\<close>

definition scrape_all :: "web \<Rightarrow> int \<Rightarrow> scraper \<Rightarrow> (error + unit) \<times> scraper" where
  "scrape_all w max_pages st =
     (case scrape_pages w max_pages [0 ..< nat max_pages] st of
        (Inl e, st1) \<Rightarrow> (Inl e, st1)
      | (Inr u, st1) \<Rightarrow>
          (Inr (),
           logging (FailedUrls (card (failed_urls st1)))
             (logging (Completed (length (asset_dict st1))) st1)))"

section \<open>Export\<close>

text \<open>Line 113: the function applied to every \<open>stars\<close> cell before \<open>pd.to_numeric\<close>.\<close>

definition normalize_stars :: "string \<Rightarrow> string" where
  "normalize_stars x = str_replace ''k'' ''00'' (str_replace ''.'' '''' x)"

text \<open>
  Modelled from the spec: \<open>pd.to_numeric\<close> belongs to pandas, not to the repository. It is
  modelled on unsigned decimal numerals only, which it reads as the integer they denote
  (the spec's "normalized numeric"). \<open>None\<close> stands for every other string: whether pandas
  raises on it or reads it as a float or a signed number is outside this model.
\<close>

definition is_digit :: "char \<Rightarrow> bool" where
  "is_digit c = (CHR ''0'' \<le> c \<and> c \<le> CHR ''9'')"

definition to_numeric :: "string \<Rightarrow> int option" where
  "to_numeric x =
     (if x \<noteq> [] \<and> list_all is_digit x
      then Some (foldl (\<lambda>acc c. 10 * acc + (of_char c - 48)) 0 x)
      else None)"

definition stars_numeric :: "string \<Rightarrow> int option" where
  "stars_numeric x = to_numeric (normalize_stars x)"

section \<open>The specification's wording\<close>

text \<open>
  The spec's normalization, word for word: strip the periods, then replace a trailing
  \<open>k\<close> by two zero digits.
\<close>

definition spec_normalize :: "string \<Rightarrow> string" where
  "spec_normalize x =
     (let y = filter (\<lambda>c. c \<noteq> CHR ''.'') x
      in if y \<noteq> [] \<and> last y = CHR ''k'' then butlast y @ ''00'' else y)"

text \<open>
  The host of a URL, in the spec's own segmentation (scheme, empty, host, owner, repo):
  the third of its \<open>/\<close>-separated segments.
\<close>

definition url_host :: "string \<Rightarrow> string" where
  "url_host url =
     (case split_all (CHR ''/'') url of
        scheme # slash # host # rest \<Rightarrow> host
      | _ \<Rightarrow> [])"

text \<open>
  The records the extractor produces during a run, in the order in which the loop of
  \<open>scrape_all\<close> receives them. Each function follows the traversal of the function it
  observes and continues from the state that function leaves.
\<close>

definition item_records :: "web \<Rightarrow> tag \<Rightarrow> scraper \<Rightarrow> asset_info list" where
  "item_records w item st =
     (case fst (scrape_asset w item st) of
        Inr (Some info) \<Rightarrow> [info]
      | _ \<Rightarrow> [])"

fun items_records :: "web \<Rightarrow> tag list \<Rightarrow> scraper \<Rightarrow> asset_info list" where
  "items_records w [] st = []"
| "items_records w (item # items) st =
     item_records w item st @
     (case scrape_item w item st of
        (Inl e, st1) \<Rightarrow> []
      | (Inr u, st1) \<Rightarrow> items_records w items st1)"

definition page_records :: "web \<Rightarrow> int \<Rightarrow> nat \<Rightarrow> scraper \<Rightarrow> asset_info list" where
  "page_records w max_pages page st =
     (case make_request w (page_url page) (logging (ScrapingPage (page + 1) max_pages) st) of
        (None, st1) \<Rightarrow> []
      | (Some soup, st1) \<Rightarrow> items_records w (select soup ''.asset-item'') st1)"

fun pages_records :: "web \<Rightarrow> int \<Rightarrow> nat list \<Rightarrow> scraper \<Rightarrow> asset_info list" where
  "pages_records w max_pages [] st = []"
| "pages_records w max_pages (page # pages) st =
     page_records w max_pages page st @
     (case scrape_page w max_pages page st of
        (Inl e, st1) \<Rightarrow> []
      | (Inr u, st1) \<Rightarrow> pages_records w max_pages pages st1)"

definition run_records :: "web \<Rightarrow> int \<Rightarrow> scraper \<Rightarrow> asset_info list" where
  "run_records w max_pages st = pages_records w max_pages [0 ..< nat max_pages] st"

definition tags_seen :: "string \<Rightarrow> asset_info list \<Rightarrow> string list" where
  "tags_seen url recs = map godot_version (filter (\<lambda>a. asset_url a = url) recs)"

text \<open>An outcome of \<open>scrape_asset\<close> other than a record: \<open>None\<close>, or an escaping exception.\<close>

definition no_record :: "error + asset_info option \<Rightarrow> bool" where
  "no_record r = (case r of Inr (Some info) \<Rightarrow> False | _ \<Rightarrow> True)"

section \<open>Example pages\<close>

definition ex_item :: "string \<Rightarrow> string \<Rightarrow> tag" where
  "ex_item title ver =
     Tag [(''class'', ''asset-item'')] []
       [(''.asset-header'', [Tag [(''href'', ''/asset-library/asset/7'')] [] []]),
        (''.asset-title h4'', [Tag [] title []]),
        (''.asset-tags .label-info'', [Tag [] ver []]),
        (''.asset-footer span'', [Tag [] ''MIT | 2024-01-05 '' []])]"

definition ex_detail :: tag where
  "ex_detail =
     Tag [] []
       [(''.container a.btn-default'',
         [Tag [(''href'', ''https://github.com/owner/repo/issues/5'')] ''View files'' []])]"

definition ex_repo :: tag where
  "ex_repo = Tag [] [] [(''.js-social-count'', [Tag [(''title'', ''1,234'')] ''1.2k'' []])]"

definition ex_listing :: "tag list \<Rightarrow> tag" where
  "ex_listing items = Tag [] [] [(''.asset-item'', items)]"

text \<open>
  A web that serves one listing page (index 0) with the given entries, the detail page
  of asset 7 and, if \<open>repo_up\<close>, its repository page; every other request fails.
\<close>

definition ex_web :: "tag list \<Rightarrow> bool \<Rightarrow> web" where
  "ex_web items repo_up k url =
     (if url = page_url 0 then Some (ex_listing items)
      else if url = ''https://godotengine.org/asset-library/asset/7'' then Some ex_detail
      else if url = ''https://github.com/owner/repo'' \<and> repo_up then Some ex_repo
      else None)"

definition dead_web :: web where
  "dead_web k url = None"

definition ex_info :: "string \<Rightarrow> string \<Rightarrow> string \<Rightarrow> asset_info" where
  "ex_info title st_count ver =
     \<lparr>name = title,
      asset_url = ''https://godotengine.org/asset-library/asset/7'',
      repo_url = ''https://github.com/owner/repo'',
      stars = st_count,
      godot_version = ver,
      last_updated = ''2024-01-05''\<rparr>"

text \<open>An entry like \<open>ex_item\<close> whose title element is missing.\<close>

definition ex_item_untitled :: tag where
  "ex_item_untitled =
     Tag [(''class'', ''asset-item'')] []
       [(''.asset-header'', [Tag [(''href'', ''/asset-library/asset/7'')] [] []]),
        (''.asset-tags .label-info'', [Tag [] ''4.2'' []]),
        (''.asset-footer span'', [Tag [] ''MIT | 2024-01-05 '' []])]"


section \<open>What each operation leaves untouched\<close>

lemma logging_fields [simp]:
  "asset_dict (logging e st) = asset_dict st"
  "failed_urls (logging e st) = failed_urls st"
  "requests (logging e st) = requests st"
  by (simp_all add: logging_def)

lemma make_request_fields:
  assumes "make_request w url st = (r, st')"
  shows "asset_dict st' = asset_dict st" "failed_urls st' = failed_urls st"
    "requests st' = Suc (requests st)" "r = w (requests st) url"
  using assms by (auto simp: make_request_def split: option.splits)

lemma scrape_detail_fields:
  assumes "scrape_detail w item aurl soup st = (r, st')"
  shows "asset_dict st' = asset_dict st" "failed_urls st' = failed_urls st"
  using assms
  by (auto simp: scrape_detail_def split: sum.splits prod.splits option.splits
      dest: make_request_fields)

lemma on_exception_bound:
  "on_exception e (Some aurl) st =
     (Inr None, (logging (ScrapeFailed e) st)\<lparr>failed_urls := insert aurl (failed_urls st)\<rparr>)"
  by (simp add: on_exception_def Let_def)

lemma on_exception_unbound:
  "on_exception e None st = (Inl UnboundLocalError, logging (ScrapeFailed e) st)"
  by (simp add: on_exception_def Let_def)

lemma on_exception_dict:
  assumes "on_exception e bound st = (r, st')"
  shows "asset_dict st' = asset_dict st"
  using assms by (auto simp: on_exception_def Let_def split: option.splits)

lemma scrape_asset_dict:
  assumes "scrape_asset w item st = (r, st')"
  shows "asset_dict st' = asset_dict st"
  using assms
  by (auto simp: scrape_asset_def split: sum.splits prod.splits option.splits
      dest!: make_request_fields(1) scrape_detail_fields(1) on_exception_dict)

section \<open>The merge rule\<close>

lemma map_of_merge_info:
  "map_of (merge_info info d) (asset_url info) =
     (case map_of d (asset_url info) of
        None \<Rightarrow> Some info
      | Some previous \<Rightarrow>
          Some (if godot_version info < godot_version previous then previous else info))"
  by (simp add: merge_info_def update_conv' split: option.splits)

lemma map_of_merge_info_other:
  "u \<noteq> asset_url info \<Longrightarrow> map_of (merge_info info d) u = map_of d u"
  by (simp add: merge_info_def update_conv' split: option.splits)

text \<open>
  C9. A new record for a URL that is already stored replaces the stored record unless
  the stored tag is strictly greater; with equal tags the new record is the one stored.
\<close>

theorem store_asset_same_url:
  assumes "map_of (asset_dict st) (asset_url info) = Some previous"
  shows "map_of (asset_dict (store_asset info st)) (asset_url info) =
           Some (if godot_version previous > godot_version info then previous else info)
         \<and> (godot_version info = godot_version previous \<longrightarrow>
              map_of (asset_dict (store_asset info st)) (asset_url info) = Some info)"
  using assms by (simp add: store_asset_def Let_def map_of_merge_info)

theorem store_asset_same_url_witness:
  "map_of (asset_dict (init_scraper\<lparr>asset_dict :=
       [(''https://godotengine.org/asset-library/asset/7'', ex_info ''Old'' ''7'' ''4.2'')]\<rparr>))
     (asset_url (ex_info ''New'' ''9'' ''4.2'')) = Some (ex_info ''Old'' ''7'' ''4.2'')
   \<and> godot_version (ex_info ''New'' ''9'' ''4.2'') = godot_version (ex_info ''Old'' ''7'' ''4.2'')
   \<and> map_of (asset_dict (store_asset (ex_info ''New'' ''9'' ''4.2'')
        (init_scraper\<lparr>asset_dict :=
           [(''https://godotengine.org/asset-library/asset/7'', ex_info ''Old'' ''7'' ''4.2'')]\<rparr>)))
       (asset_url (ex_info ''New'' ''9'' ''4.2'')) = Some (ex_info ''New'' ''9'' ''4.2'')"
proof -
  let ?st = "init_scraper\<lparr>asset_dict :=
       [(''https://godotengine.org/asset-library/asset/7'', ex_info ''Old'' ''7'' ''4.2'')]\<rparr>"
  have stored: "map_of (asset_dict ?st) (asset_url (ex_info ''New'' ''9'' ''4.2''))
      = Some (ex_info ''Old'' ''7'' ''4.2'')"
    by (simp add: ex_info_def)
  have same: "godot_version (ex_info ''New'' ''9'' ''4.2'') = godot_version (ex_info ''Old'' ''7'' ''4.2'')"
    by (simp add: ex_info_def)
  from store_asset_same_url [OF stored] stored same show ?thesis by blast
qed

section \<open>Failure paths of the extractor\<close>

text \<open>
  C8. When \<open>scrape_asset\<close> yields no record, by returning \<open>None\<close> or by an escaping
  exception, the result map is the same after the extraction and after the loop body
  as before: the loop body writes to it only on a record.
\<close>

theorem no_record_keeps_asset_dict:
  assumes "no_record (fst (scrape_asset w item st))"
  shows "asset_dict (snd (scrape_asset w item st)) = asset_dict st
         \<and> asset_dict (snd (scrape_item w item st)) = asset_dict st"
proof -
  obtain r st' where run: "scrape_asset w item st = (r, st')"
    by (cases "scrape_asset w item st")
  have keep: "asset_dict st' = asset_dict st"
    using run by (rule scrape_asset_dict)
  from assms run have "no_record r" by simp
  then have "snd (scrape_item w item st) = st'"
    using run by (auto simp: scrape_item_def no_record_def split: sum.splits option.splits)
  with keep run show ?thesis by simp
qed

theorem no_record_keeps_asset_dict_witness:
  "no_record (fst (scrape_asset dead_web (ex_item ''Kit'' ''4.2'')
       (init_scraper\<lparr>asset_dict := [(''u'', ex_info ''Old'' ''7'' ''4.2'')]\<rparr>)))
   \<and> asset_dict (snd (scrape_item dead_web (ex_item ''Kit'' ''4.2'')
       (init_scraper\<lparr>asset_dict := [(''u'', ex_info ''Old'' ''7'' ''4.2'')]\<rparr>)))
     = [(''u'', ex_info ''Old'' ''7'' ''4.2'')]"
proof -
  let ?st = "init_scraper\<lparr>asset_dict := [(''u'', ex_info ''Old'' ''7'' ''4.2'')]\<rparr>"
  have none: "no_record (fst (scrape_asset dead_web (ex_item ''Kit'' ''4.2'') ?st))"
    by code_simp
  from no_record_keeps_asset_dict [OF none] none show ?thesis by simp
qed

text \<open>
  C4. When the fetch of the detail page fails, \<open>scrape_asset\<close> returns \<open>None\<close>, the loop
  body goes on without touching the result map, and the failure set is as it was.
\<close>

theorem detail_fetch_failure:
  assumes "resolve_asset_url item = Inr aurl"
    and "w (requests st) aurl = None"
  shows "fst (scrape_asset w item st) = Inr None
         \<and> failed_urls (snd (scrape_asset w item st)) = failed_urls st
         \<and> fst (scrape_item w item st) = Inr ()
         \<and> asset_dict (snd (scrape_item w item st)) = asset_dict st
         \<and> failed_urls (snd (scrape_item w item st)) = failed_urls st"
  using assms
  by (simp add: scrape_item_def scrape_asset_def make_request_def)

theorem detail_fetch_failure_witness:
  "resolve_asset_url (ex_item ''Kit'' ''4.2'') = Inr ''https://godotengine.org/asset-library/asset/7''
   \<and> dead_web (requests init_scraper) ''https://godotengine.org/asset-library/asset/7'' = None
   \<and> fst (scrape_asset dead_web (ex_item ''Kit'' ''4.2'') init_scraper) = Inr None
   \<and> failed_urls (snd (scrape_asset dead_web (ex_item ''Kit'' ''4.2'') init_scraper)) = {}
   \<and> asset_dict (snd (scrape_item dead_web (ex_item ''Kit'' ''4.2'') init_scraper)) = []"
proof -
  have url: "resolve_asset_url (ex_item ''Kit'' ''4.2'')
      = Inr ''https://godotengine.org/asset-library/asset/7''"
    by code_simp
  have down: "dead_web (requests init_scraper) ''https://godotengine.org/asset-library/asset/7'' = None"
    by (simp add: dead_web_def)
  from detail_fetch_failure [where w = dead_web and st = init_scraper, OF url down] url down
  show ?thesis
    by (simp add: init_scraper_def)
qed

text \<open>
  C7 as the claim states it fails: with the repository fetch failing, an entry without
  its title element gives no record, and its URL goes into the failure set.
\<close>

theorem repo_fetch_failure_untitled_counterexample:
  "resolve_asset_url ex_item_untitled = Inr ''https://godotengine.org/asset-library/asset/7''
   \<and> ex_web [] False (requests init_scraper) ''https://godotengine.org/asset-library/asset/7''
       = Some ex_detail
   \<and> find_repo_url ex_detail = Inr ''https://github.com/owner/repo''
   \<and> ex_web [] False (Suc (requests init_scraper)) ''https://github.com/owner/repo'' = None
   \<and> fst (scrape_asset (ex_web [] False) ex_item_untitled init_scraper) = Inr None
   \<and> failed_urls (snd (scrape_asset (ex_web [] False) ex_item_untitled init_scraper))
       = {''https://godotengine.org/asset-library/asset/7''}"
  by code_simp

text \<open>
  C7, amended. When the detail page is fetched and names a repository whose fetch
  fails, the stars are \<open>0\<close>, whatever the repository URL, and step 6 follows. If the
  name, tag and footer elements of the entry are present, the record built from them
  is returned and the failure set is as it was. If one of them is missing, the
  operation returns \<open>None\<close> and the asset URL is added to the failure set.
\<close>

theorem repo_fetch_failure:
  assumes "resolve_asset_url item = Inr aurl"
    and "w (requests st) aurl = Some asset_soup"
    and "find_repo_url asset_soup = Inr rurl"
    and "w (Suc (requests st)) rurl = None"
  shows "(select_one item ''.asset-title h4'' = Some title
          \<and> select_one item ''.asset-tags .label-info'' = Some label
          \<and> select_one item ''.asset-footer span'' = Some footer \<longrightarrow>
            fst (scrape_asset w item st) =
              Inr (Some \<lparr>name = strip (tag_text title),
                         asset_url = aurl,
                         repo_url = rurl,
                         stars = ''0'',
                         godot_version = strip (tag_text label),
                         last_updated = strip (last (split_all (CHR ''|'') (tag_text footer)))\<rparr>)
            \<and> failed_urls (snd (scrape_asset w item st)) = failed_urls st)
         \<and> (select_one item ''.asset-title h4'' = None
            \<or> select_one item ''.asset-tags .label-info'' = None
            \<or> select_one item ''.asset-footer span'' = None \<longrightarrow>
              fst (scrape_asset w item st) = Inr None
              \<and> failed_urls (snd (scrape_asset w item st)) = insert aurl (failed_urls st))
         \<and> requests (snd (scrape_asset w item st)) = Suc (Suc (requests st))"
  using assms
  by (auto simp: scrape_asset_def scrape_detail_def make_request_def on_exception_bound
      build_info_def split: sum.splits option.splits)

theorem repo_fetch_failure_witness:
  "resolve_asset_url (ex_item ''Kit'' ''4.2'') = Inr ''https://godotengine.org/asset-library/asset/7''
   \<and> resolve_asset_url ex_item_untitled = Inr ''https://godotengine.org/asset-library/asset/7''
   \<and> ex_web [] False (requests init_scraper) ''https://godotengine.org/asset-library/asset/7''
       = Some ex_detail
   \<and> find_repo_url ex_detail = Inr ''https://github.com/owner/repo''
   \<and> ex_web [] False (Suc (requests init_scraper)) ''https://github.com/owner/repo'' = None
   \<and> select_one (ex_item ''Kit'' ''4.2'') ''.asset-title h4'' = Some (Tag [] ''Kit'' [])
   \<and> select_one (ex_item ''Kit'' ''4.2'') ''.asset-tags .label-info'' = Some (Tag [] ''4.2'' [])
   \<and> select_one (ex_item ''Kit'' ''4.2'') ''.asset-footer span''
       = Some (Tag [] ''MIT | 2024-01-05 '' [])
   \<and> select_one ex_item_untitled ''.asset-title h4'' = None
   \<and> fst (scrape_asset (ex_web [] False) (ex_item ''Kit'' ''4.2'') init_scraper) =
       Inr (Some \<lparr>name = strip (tag_text (Tag [] ''Kit'' [])),
                  asset_url = ''https://godotengine.org/asset-library/asset/7'',
                  repo_url = ''https://github.com/owner/repo'',
                  stars = ''0'',
                  godot_version = strip (tag_text (Tag [] ''4.2'' [])),
                  last_updated = strip (last (split_all (CHR ''|'')
                    (tag_text (Tag [] ''MIT | 2024-01-05 '' []))))\<rparr>)
   \<and> strip (last (split_all (CHR ''|'') (tag_text (Tag [] ''MIT | 2024-01-05 '' [])))) = ''2024-01-05''
   \<and> fst (scrape_asset (ex_web [] False) ex_item_untitled init_scraper) = Inr None
   \<and> failed_urls (snd (scrape_asset (ex_web [] False) ex_item_untitled init_scraper)) =
       insert ''https://godotengine.org/asset-library/asset/7'' (failed_urls init_scraper)"
proof -
  have url: "resolve_asset_url (ex_item ''Kit'' ''4.2'')
      = Inr ''https://godotengine.org/asset-library/asset/7''"
    by code_simp
  have url': "resolve_asset_url ex_item_untitled
      = Inr ''https://godotengine.org/asset-library/asset/7''"
    by code_simp
  have detail: "ex_web [] False (requests init_scraper)
      ''https://godotengine.org/asset-library/asset/7'' = Some ex_detail"
    by code_simp
  have repo: "find_repo_url ex_detail = Inr ''https://github.com/owner/repo''"
    by code_simp
  have down: "ex_web [] False (Suc (requests init_scraper)) ''https://github.com/owner/repo'' = None"
    by code_simp
  have title: "select_one (ex_item ''Kit'' ''4.2'') ''.asset-title h4'' = Some (Tag [] ''Kit'' [])"
    by code_simp
  have label: "select_one (ex_item ''Kit'' ''4.2'') ''.asset-tags .label-info''
      = Some (Tag [] ''4.2'' [])"
    by code_simp
  have footer: "select_one (ex_item ''Kit'' ''4.2'') ''.asset-footer span''
      = Some (Tag [] ''MIT | 2024-01-05 '' [])"
    by code_simp
  have untitled: "select_one ex_item_untitled ''.asset-title h4'' = None"
    by code_simp
  have date: "strip (last (split_all (CHR ''|'') (tag_text (Tag [] ''MIT | 2024-01-05 '' []))))
      = ''2024-01-05''"
    by code_simp
  have present: "fst (scrape_asset (ex_web [] False) (ex_item ''Kit'' ''4.2'') init_scraper) =
       Inr (Some \<lparr>name = strip (tag_text (Tag [] ''Kit'' [])),
                  asset_url = ''https://godotengine.org/asset-library/asset/7'',
                  repo_url = ''https://github.com/owner/repo'',
                  stars = ''0'',
                  godot_version = strip (tag_text (Tag [] ''4.2'' [])),
                  last_updated = strip (last (split_all (CHR ''|'')
                    (tag_text (Tag [] ''MIT | 2024-01-05 '' []))))\<rparr>)"
    by (rule repo_fetch_failure [where w = "ex_web [] False" and st = init_scraper
          and title = "Tag [] ''Kit'' []" and label = "Tag [] ''4.2'' []"
          and footer = "Tag [] ''MIT | 2024-01-05 '' []", OF url detail repo down,
          THEN conjunct1, THEN mp, THEN conjunct1])
      (intro conjI title label footer)
  have missing: "fst (scrape_asset (ex_web [] False) ex_item_untitled init_scraper) = Inr None
      \<and> failed_urls (snd (scrape_asset (ex_web [] False) ex_item_untitled init_scraper)) =
          insert ''https://godotengine.org/asset-library/asset/7'' (failed_urls init_scraper)"
    by (rule repo_fetch_failure [where w = "ex_web [] False" and st = init_scraper,
          OF url' detail repo down, THEN conjunct2, THEN conjunct1, THEN mp])
      (rule disjI1, rule untitled)
  show ?thesis
    by (intro conjI url url' detail repo down title label footer untitled present date
        missing [THEN conjunct1] missing [THEN conjunct2])
qed














text \<open>
  C2. A listing entry without the header element: the handler logs the
  \<open>AttributeError\<close> and then reads the local \<open>asset_url\<close>, which line 62 never assigned.
  The \<open>UnboundLocalError\<close> leaves \<open>scrape_asset\<close>; nothing is added to the failure set
  and nothing is returned.
\<close>

theorem missing_header_escapes:
  "scrape_asset w (Tag [(''class'', ''asset-item'')] [] []) st =
     (Inl UnboundLocalError, logging (ScrapeFailed AttributeError) st)"
  by (simp add: scrape_asset_def resolve_asset_url_def select_one_def select_def
      on_exception_unbound)

text \<open>The same error after line 62 is caught as the claim says.\<close>

lemma later_failures_caught:
  assumes "resolve_asset_url item = Inr aurl"
    and "w (requests st) aurl = Some asset_soup"
    and "scrape_detail w item aurl asset_soup (st\<lparr>requests := Suc (requests st)\<rparr>) = (Inl e, st')"
  shows "scrape_asset w item st =
     (Inr None, (logging (ScrapeFailed e) st')\<lparr>failed_urls := insert aurl (failed_urls st')\<rparr>)"
  using assms by (simp add: scrape_asset_def make_request_def on_exception_bound)

text \<open>
  C10. On a GitHub URL, a social-count element without a title attribute gives the
  empty string; a page without the element gives the \<open>AttributeError\<close>.
\<close>

theorem parse_stars_github_no_title:
  assumes "contains_str ''github'' repo"
    and "select_one soup ''.js-social-count'' = Some el"
    and "get_attr el ''title'' = None"
    and "select_one soup' ''.js-social-count'' = None"
  shows "parse_stars soup repo = Inr '''' \<and> parse_stars soup' repo = Inl AttributeError"
  using assms by (simp add: parse_stars_def)

theorem parse_stars_github_no_title_witness:
  "contains_str ''github'' ''https://github.com/owner/repo''
   \<and> select_one (Tag [] [] [(''.js-social-count'', [Tag [(''href'', ''/stargazers'')] ''12'' []])])
       ''.js-social-count'' = Some (Tag [(''href'', ''/stargazers'')] ''12'' [])
   \<and> get_attr (Tag [(''href'', ''/stargazers'')] ''12'' []) ''title'' = None
   \<and> select_one (Tag [] [] []) ''.js-social-count'' = None
   \<and> parse_stars (Tag [] [] [(''.js-social-count'', [Tag [(''href'', ''/stargazers'')] ''12'' []])])
       ''https://github.com/owner/repo'' = Inr ''''
   \<and> parse_stars (Tag [] [] []) ''https://github.com/owner/repo'' = Inl AttributeError"
proof -
  have host: "contains_str ''github'' ''https://github.com/owner/repo''"
    by simp
  have found: "select_one (Tag [] [] [(''.js-social-count'', [Tag [(''href'', ''/stargazers'')] ''12'' []])])
       ''.js-social-count'' = Some (Tag [(''href'', ''/stargazers'')] ''12'' [])"
    by (simp add: select_one_def select_def)
  have untitled: "get_attr (Tag [(''href'', ''/stargazers'')] ''12'' []) ''title'' = None"
    by (simp add: get_attr_def)
  have absent: "select_one (Tag [] [] []) ''.js-social-count'' = None"
    by (simp add: select_one_def select_def)
  from parse_stars_github_no_title [OF host found untitled absent] host found untitled absent
  show ?thesis by blast
qed


section \<open>Splitting, joining and replacing\<close>

lemma contains_str_sublist: "contains_str sub s = sublist sub s"
  by (induction s) (simp_all add: sublist_Cons_right)

lemma split_all_not_Nil [simp]: "split_all sep s \<noteq> []"
  by (induction s) (auto simp: cons_first_def split: list.splits)

lemma split_max_not_Nil [simp]: "split_max sep n s \<noteq> []"
  by (induction sep n s rule: split_max.induct) (auto simp: cons_first_def split: list.splits)

lemma take_cons_first:
  "pieces \<noteq> [] \<Longrightarrow> take (Suc n) (cons_first c pieces) = cons_first c (take (Suc n) pieces)"
  by (cases pieces) (simp_all add: cons_first_def)

text \<open>The first \<open>n\<close> pieces of a split limited to \<open>n\<close> cuts are those of the unlimited split.\<close>

lemma take_split_max: "take n (split_max sep n s) = take n (split_all sep s)"
proof (induction s arbitrary: n)
  case Nil
  then show ?case by simp
next
  case (Cons c cs)
  show ?case
  proof (cases n)
    case 0
    then show ?thesis by simp
  next
    case (Suc m)
    show ?thesis
    proof (cases "c = sep")
      case True
      then show ?thesis using Suc Cons.IH [of m] by simp
    next
      case False
      then show ?thesis using Suc Cons.IH [of "Suc m"] by (simp add: take_cons_first)
    qed
  qed
qed

lemma join_Cons: "join sep (p # ps) = (if ps = [] then p else p @ sep @ join sep ps)"
  by (cases ps) simp_all

lemma join_cons_first:
  "pieces \<noteq> [] \<Longrightarrow> join sep (cons_first c pieces) = c # join sep pieces"
  by (cases pieces) (simp_all add: cons_first_def join_Cons)

text \<open>Joining the first pieces of a split gives back the beginning of the string.\<close>

lemma prefix_join_take_split: "prefix (join [sep] (take n (split_all sep s))) s"
proof (induction s arbitrary: n)
  case Nil
  then show ?case by (cases n) simp_all
next
  case (Cons c cs)
  show ?case
  proof (cases n)
    case 0
    then show ?thesis by simp
  next
    case (Suc m)
    show ?thesis
    proof (cases "c = sep")
      case True
      then show ?thesis using Suc Cons.IH [of m] by (simp add: join_Cons)
    next
      case False
      have "take (Suc m) (split_all sep cs) \<noteq> []" by simp
      then show ?thesis
        using False Suc Cons.IH [of "Suc m"]
        by (simp add: take_cons_first join_cons_first del: take_Suc_Cons)
    qed
  qed
qed

lemma join_split_all: "join [sep] (split_all sep s) = s"
  by (induction s) (simp_all add: join_Cons join_cons_first)

text \<open>A piece of a split occurs in the string that was split.\<close>

lemma split_all_pieces: "prefix (hd (split_all sep s)) s \<and> (\<forall>p \<in> set (split_all sep s). sublist p s)"
proof (induction s)
  case Nil
  then show ?case by simp
next
  case (Cons c cs)
  show ?case
  proof (cases "c = sep")
    case True
    then show ?thesis using Cons by (auto simp: sublist_Cons_right)
  next
    case False
    obtain q qs where split: "split_all sep cs = q # qs"
      by (cases "split_all sep cs") simp_all
    with Cons have "prefix q cs" and rest: "\<forall>p \<in> set (q # qs). sublist p cs" by simp_all
    then show ?thesis
      using False split by (auto simp: cons_first_def sublist_Cons_right)
  qed
qed

lemma url_host_sublist: "url_host url \<noteq> [] \<Longrightarrow> sublist (url_host url) url"
  using split_all_pieces [of "CHR ''/''" url]
  by (auto simp: url_host_def split: list.splits)

lemma contains_host_contains_url:
  assumes "contains_str ''github'' (url_host url)"
  shows "contains_str ''github'' url"
proof -
  from assms have "url_host url \<noteq> []" by auto
  then have "sublist (url_host url) url" by (rule url_host_sublist)
  moreover from assms have "sublist ''github'' (url_host url)" by (simp add: contains_str_sublist)
  ultimately have "sublist ''github'' url" by (rule sublist_order.order_trans [rotated])
  then show ?thesis by (simp add: contains_str_sublist)
qed

section \<open>Cleaning the repository URL\<close>

text \<open>
  C5 as the claim states it fails: a GitLab URL whose path contains \<open>github\<close> is cut
  although its host does not contain \<open>github\<close>.
\<close>

theorem clean_repo_url_other_host_counterexample:
  "\<not> (\<not> contains_str ''github'' (url_host ''https://gitlab.com/owner/github-mirror/-/tree/main'')
      \<longrightarrow> clean_repo_url ''https://gitlab.com/owner/github-mirror/-/tree/main''
            = ''https://gitlab.com/owner/github-mirror/-/tree/main'')"
  by code_simp

text \<open>
  C5, amended. The test is on the whole URL string: if \<open>github\<close> occurs anywhere in it,
  the result is its first five \<open>/\<close>-separated segments joined by \<open>/\<close>, which is a
  beginning of the URL; otherwise the URL is returned unchanged. A URL whose host
  contains \<open>github\<close> is therefore cut, as is the example of the spec.
\<close>

theorem clean_repo_url_substring:
  "(contains_str ''github'' url \<longrightarrow>
      clean_repo_url url = join ''/'' (take 5 (split_all (CHR ''/'') url))
      \<and> prefix (clean_repo_url url) url)
   \<and> (\<not> contains_str ''github'' url \<longrightarrow> clean_repo_url url = url)
   \<and> (contains_str ''github'' (url_host url) \<longrightarrow>
        clean_repo_url url = join ''/'' (take 5 (split_all (CHR ''/'') url)))
   \<and> clean_repo_url ''https://github.com/owner/repo/issues/5'' = ''https://github.com/owner/repo''"
proof -
  have cut: "clean_repo_url url = join ''/'' (take 5 (split_all (CHR ''/'') url))"
    if "contains_str ''github'' url"
    using that by (simp add: clean_repo_url_def take_split_max)
  have "prefix (join ''/'' (take 5 (split_all (CHR ''/'') url))) url"
    by (rule prefix_join_take_split)
  moreover have "clean_repo_url ''https://github.com/owner/repo/issues/5''
      = ''https://github.com/owner/repo''"
    by code_simp
  ultimately show ?thesis
    using cut contains_host_contains_url [of url] by (auto simp: clean_repo_url_def)
qed

theorem clean_repo_url_substring_witness:
  "contains_str ''github'' ''https://gitlab.com/owner/github-mirror/-/tree/main''
   \<and> clean_repo_url ''https://gitlab.com/owner/github-mirror/-/tree/main''
       = join ''/'' (take 5 (split_all (CHR ''/'') ''https://gitlab.com/owner/github-mirror/-/tree/main''))
   \<and> join ''/'' (take 5 (split_all (CHR ''/'') ''https://gitlab.com/owner/github-mirror/-/tree/main''))
       = ''https://gitlab.com/owner/github-mirror''
   \<and> \<not> contains_str ''github'' ''https://gitlab.com/owner/repo/-/issues/5''
   \<and> clean_repo_url ''https://gitlab.com/owner/repo/-/issues/5''
       = ''https://gitlab.com/owner/repo/-/issues/5''
   \<and> contains_str ''github'' (url_host ''https://github.com/owner/repo/issues/5'')
   \<and> clean_repo_url ''https://github.com/owner/repo/issues/5''
       = join ''/'' (take 5 (split_all (CHR ''/'') ''https://github.com/owner/repo/issues/5''))"
proof -
  have path: "contains_str ''github'' ''https://gitlab.com/owner/github-mirror/-/tree/main''"
    by code_simp
  have segments: "join ''/'' (take 5 (split_all (CHR ''/'')
      ''https://gitlab.com/owner/github-mirror/-/tree/main'')) = ''https://gitlab.com/owner/github-mirror''"
    by code_simp
  have other: "\<not> contains_str ''github'' ''https://gitlab.com/owner/repo/-/issues/5''"
    by code_simp
  have host: "contains_str ''github'' (url_host ''https://github.com/owner/repo/issues/5'')"
    by code_simp
  from clean_repo_url_substring [of "''https://gitlab.com/owner/github-mirror/-/tree/main''"]
    clean_repo_url_substring [of "''https://gitlab.com/owner/repo/-/issues/5''"]
    clean_repo_url_substring [of "''https://github.com/owner/repo/issues/5''"]
    path segments other host
  show ?thesis by blast
qed

section \<open>Normalizing the star count\<close>

lemma str_replace_char:
  "str_replace [k] new s = concat (map (\<lambda>c. if c = k then new else [c]) s)"
  by (induction s) auto

lemma str_replace_char_empty: "str_replace [k] [] s = filter (\<lambda>c. c \<noteq> k) s"
  by (induction s) auto

lemma concat_map_no_k:
  "k \<notin> set s \<Longrightarrow> concat (map (\<lambda>c. if c = k then new else [c]) s) = s"
  by (induction s) auto

lemma replace_trailing_only:
  assumes "k \<notin> set (butlast y)"
  shows "concat (map (\<lambda>c. if c = k then new else [c]) y) =
           (if y \<noteq> [] \<and> last y = k then butlast y @ new else y)"
proof (cases "y = []")
  case True
  then show ?thesis by simp
next
  case False
  then have "y = butlast y @ [last y]" by simp
  then have "concat (map (\<lambda>c. if c = k then new else [c]) y) =
      concat (map (\<lambda>c. if c = k then new else [c]) (butlast y)) @ (if last y = k then new else [last y])"
    by (metis (no_types, lifting) append_Nil2 concat.simps(1) concat.simps(2) concat_append
        list.simps(8) list.simps(9) map_append)
  then show ?thesis using assms False by (simp add: concat_map_no_k)
qed

text \<open>
  C3 as the claim states it fails: a \<open>k\<close> that is not trailing is replaced as well.
  On \<open>1k5\<close> the code's text is \<open>1005\<close> and the number 1005, where the spec's
  transform leaves \<open>1k5\<close>.
\<close>

theorem normalize_stars_trailing_counterexample:
  "normalize_stars ''1k5'' \<noteq> spec_normalize ''1k5''
   \<and> stars_numeric ''1k5'' = Some 1005
   \<and> to_numeric (spec_normalize ''1k5'') = None"
  by code_simp

text \<open>
  C3, amended. The export removes every period and replaces every \<open>k\<close>, wherever it
  stands, by two zero digits. On a string whose only \<open>k\<close>, once the periods are gone,
  is its last character (or that has none) this is the spec's transform; \<open>1.2k\<close>
  becomes 1200, \<open>340\<close> stays 340 and \<open>0\<close> stays 0.
\<close>

theorem normalize_stars_every_k:
  "normalize_stars x =
     concat (map (\<lambda>c. if c = CHR ''k'' then ''00'' else [c]) (filter (\<lambda>c. c \<noteq> CHR ''.'') x))
   \<and> (CHR ''k'' \<notin> set (butlast (filter (\<lambda>c. c \<noteq> CHR ''.'') x)) \<longrightarrow>
        normalize_stars x = spec_normalize x)
   \<and> stars_numeric ''1.2k'' = Some 1200
   \<and> stars_numeric ''340'' = Some 340
   \<and> stars_numeric ''0'' = Some 0"
proof -
  have shape: "normalize_stars x =
      concat (map (\<lambda>c. if c = CHR ''k'' then ''00'' else [c]) (filter (\<lambda>c. c \<noteq> CHR ''.'') x))"
    unfolding normalize_stars_def str_replace_char_empty by (rule str_replace_char)
  have agree: "normalize_stars x = spec_normalize x"
    if "CHR ''k'' \<notin> set (butlast (filter (\<lambda>c. c \<noteq> CHR ''.'') x))"
    using replace_trailing_only [OF that, of "''00''"]
    by (simp add: shape spec_normalize_def Let_def)
  have "stars_numeric ''1.2k'' = Some 1200" by code_simp
  moreover have "stars_numeric ''340'' = Some 340" by code_simp
  moreover have "stars_numeric ''0'' = Some 0" by code_simp
  ultimately show ?thesis using shape agree by blast
qed

theorem normalize_stars_every_k_witness:
  "CHR ''k'' \<notin> set (butlast (filter (\<lambda>c. c \<noteq> CHR ''.'') ''1.2k''))
   \<and> normalize_stars ''1.2k'' = spec_normalize ''1.2k''
   \<and> spec_normalize ''1.2k'' = ''1200''"
proof -
  have trailing: "CHR ''k'' \<notin> set (butlast (filter (\<lambda>c. c \<noteq> CHR ''.'') ''1.2k''))"
    by simp
  have spec: "spec_normalize ''1.2k'' = ''1200''"
    by (simp add: spec_normalize_def)
  from normalize_stars_every_k [of "''1.2k''"] trailing spec show ?thesis by blast
qed

section \<open>The result map after a run\<close>

lemma asset_dict_store_asset:
  "asset_dict (store_asset info st) = merge_info info (asset_dict st)"
  by (simp add: store_asset_def Let_def)

lemma scrape_item_fold:
  "asset_dict (snd (scrape_item w item st)) =
     fold merge_info (item_records w item st) (asset_dict st)"
proof -
  obtain r st' where run: "scrape_asset w item st = (r, st')"
    by (cases "scrape_asset w item st")
  then have "asset_dict st' = asset_dict st" by (rule scrape_asset_dict)
  with run show ?thesis
    by (simp add: scrape_item_def item_records_def asset_dict_store_asset
        split: sum.splits option.splits)
qed

lemma scrape_items_fold:
  "asset_dict (snd (scrape_items w items st)) =
     fold merge_info (items_records w items st) (asset_dict st)"
proof (induction items arbitrary: st)
  case Nil
  then show ?case by simp
next
  case (Cons item items)
  obtain r st1 where step: "scrape_item w item st = (r, st1)"
    by (cases "scrape_item w item st")
  then have first: "asset_dict st1 = fold merge_info (item_records w item st) (asset_dict st)"
    using scrape_item_fold [of w item st] by simp
  show ?case
  proof (cases r)
    case (Inl e)
    with step first show ?thesis by simp
  next
    case (Inr u)
    with step first Cons.IH [of st1] show ?thesis by simp
  qed
qed

lemma scrape_page_fold:
  "asset_dict (snd (scrape_page w max_pages page st)) =
     fold merge_info (page_records w max_pages page st) (asset_dict st)"
proof -
  obtain soup st1 where req:
    "make_request w (page_url page) (logging (ScrapingPage (page + 1) max_pages) st) = (soup, st1)"
    by (cases "make_request w (page_url page) (logging (ScrapingPage (page + 1) max_pages) st)")
  then have "asset_dict st1 = asset_dict st"
    using make_request_fields(1) by fastforce
  with req show ?thesis
    by (simp add: scrape_page_def page_records_def scrape_items_fold split: option.splits)
qed

lemma scrape_pages_fold:
  "asset_dict (snd (scrape_pages w max_pages pages st)) =
     fold merge_info (pages_records w max_pages pages st) (asset_dict st)"
proof (induction pages arbitrary: st)
  case Nil
  then show ?case by simp
next
  case (Cons page pages)
  obtain r st1 where step: "scrape_page w max_pages page st = (r, st1)"
    by (cases "scrape_page w max_pages page st")
  then have first:
    "asset_dict st1 = fold merge_info (page_records w max_pages page st) (asset_dict st)"
    using scrape_page_fold [of w max_pages page st] by simp
  show ?case
  proof (cases r)
    case (Inl e)
    with step first show ?thesis by simp
  next
    case (Inr u)
    with step first Cons.IH [of st1] show ?thesis by simp
  qed
qed

text \<open>The result map of a run is the merge of the records of the run, in their order.\<close>

lemma scrape_all_fold:
  "asset_dict (snd (scrape_all w max_pages st)) =
     fold merge_info (run_records w max_pages st) (asset_dict st)"
proof -
  obtain r st1 where run: "scrape_pages w max_pages [0 ..< nat max_pages] st = (r, st1)"
    by (cases "scrape_pages w max_pages [0 ..< nat max_pages] st")
  then have "asset_dict st1 = fold merge_info (run_records w max_pages st) (asset_dict st)"
    using scrape_pages_fold [of w max_pages "[0 ..< nat max_pages]" st]
    by (simp add: run_records_def)
  with run show ?thesis by (simp add: scrape_all_def split: sum.splits)
qed

lemma tags_seen_snoc:
  "tags_seen url (recs @ [a]) =
     (if asset_url a = url then tags_seen url recs @ [godot_version a] else tags_seen url recs)"
  by (simp add: tags_seen_def)

text \<open>Merging a list of records into a map without the URL keeps the greatest tag seen.\<close>

lemma fold_merge_info_max:
  assumes "map_of d url = None"
  shows "(tags_seen url recs = [] \<longrightarrow> map_of (fold merge_info recs d) url = None)
       \<and> (tags_seen url recs \<noteq> [] \<longrightarrow>
            (\<exists>a \<in> set recs. asset_url a = url
               \<and> map_of (fold merge_info recs d) url = Some a
               \<and> godot_version a = Max (set (tags_seen url recs))))"
proof (induction recs rule: rev_induct)
  case Nil
  then show ?case using assms by (simp add: tags_seen_def)
next
  case (snoc b recs)
  let ?d = "fold merge_info recs d"
  show ?case
  proof (cases "asset_url b = url")
    case False
    then have "map_of (merge_info b ?d) url = map_of ?d url"
      by (simp add: map_of_merge_info_other)
    with False snoc show ?thesis by (auto simp: tags_seen_snoc)
  next
    case True
    show ?thesis
    proof (cases "tags_seen url recs = []")
      case True
      with snoc have "map_of ?d url = None" by simp
      then have "map_of (merge_info b ?d) url = Some b"
        using \<open>asset_url b = url\<close> map_of_merge_info [of b ?d] by simp
      with True \<open>asset_url b = url\<close> show ?thesis by (simp add: tags_seen_snoc)
    next
      case False
      with snoc obtain a where a: "a \<in> set recs" "asset_url a = url" "map_of ?d url = Some a"
        "godot_version a = Max (set (tags_seen url recs))"
        by auto
      let ?keep = "if godot_version b < godot_version a then a else b"
      have stored: "map_of (merge_info b ?d) url = Some ?keep"
        using \<open>asset_url b = url\<close> a(3) map_of_merge_info [of b ?d] by simp
      have "Max (set (tags_seen url (recs @ [b]))) =
          max (godot_version b) (Max (set (tags_seen url recs)))"
        using False \<open>asset_url b = url\<close> by (simp add: tags_seen_snoc)
      also have "\<dots> = godot_version ?keep"
        using a(4) by (auto simp: max_def)
      finally have greatest: "godot_version ?keep = Max (set (tags_seen url (recs @ [b])))"
        by simp
      have member: "?keep \<in> set (recs @ [b])" and same: "asset_url ?keep = url"
        using a(1,2) \<open>asset_url b = url\<close> by auto
      have seen: "tags_seen url (recs @ [b]) \<noteq> []"
        using \<open>asset_url b = url\<close> by (simp add: tags_seen_snoc)
      have "map_of (fold merge_info (recs @ [b]) d) url = Some ?keep"
        using stored by simp
      with member same greatest
      have "\<exists>a \<in> set (recs @ [b]). asset_url a = url
          \<and> map_of (fold merge_info (recs @ [b]) d) url = Some a
          \<and> godot_version a = Max (set (tags_seen url (recs @ [b])))"
        by blast
      with seen show ?thesis by blast
    qed
  qed
qed

text \<open>
  C1. For a URL that the run starts without (as every URL is for a new scraper) and for
  which the extractor produces more than one record, the record stored at the end of
  \<open>scrape_all\<close> is one of those records and its tag is the greatest, in the order of
  strings, of all their tags. When the tags seen are \<open>4.2\<close> and \<open>4.10\<close>, the stored
  tag is \<open>4.2\<close>.
\<close>

theorem stored_tag_is_maximum:
  assumes "map_of (asset_dict st) url = None"
    and "1 < length (tags_seen url (run_records w max_pages st))"
  shows "(\<exists>a \<in> set (run_records w max_pages st). asset_url a = url
            \<and> map_of (asset_dict (snd (scrape_all w max_pages st))) url = Some a
            \<and> godot_version a = Max (set (tags_seen url (run_records w max_pages st))))
         \<and> (set (tags_seen url (run_records w max_pages st)) = {''4.2'', ''4.10''} \<longrightarrow>
              (\<exists>a. map_of (asset_dict (snd (scrape_all w max_pages st))) url = Some a
                 \<and> godot_version a = ''4.2''))"
proof -
  let ?recs = "run_records w max_pages st"
  from assms(2) have "tags_seen url ?recs \<noteq> []" by auto
  with fold_merge_info_max [OF assms(1), of ?recs]
  obtain a where a: "a \<in> set ?recs" "asset_url a = url"
    "map_of (fold merge_info ?recs (asset_dict st)) url = Some a"
    "godot_version a = Max (set (tags_seen url ?recs))"
    by auto
  have "Max {''4.2'', ''4.10''} = (''4.2'' :: string)" by simp
  with a show ?thesis by (auto simp: scrape_all_fold)
qed

theorem stored_tag_is_maximum_witness:
  "map_of (asset_dict init_scraper) ''https://godotengine.org/asset-library/asset/7'' = None
   \<and> 1 < length (tags_seen ''https://godotengine.org/asset-library/asset/7''
        (run_records (ex_web [ex_item ''Kit'' ''4.2'', ex_item ''Kit'' ''4.10''] True) 1 init_scraper))
   \<and> set (tags_seen ''https://godotengine.org/asset-library/asset/7''
        (run_records (ex_web [ex_item ''Kit'' ''4.2'', ex_item ''Kit'' ''4.10''] True) 1 init_scraper))
       = {''4.2'', ''4.10''}
   \<and> (\<exists>a. map_of (asset_dict (snd (scrape_all
          (ex_web [ex_item ''Kit'' ''4.2'', ex_item ''Kit'' ''4.10''] True) 1 init_scraper)))
          ''https://godotengine.org/asset-library/asset/7'' = Some a
        \<and> godot_version a = ''4.2'')"
proof -
  let ?w = "ex_web [ex_item ''Kit'' ''4.2'', ex_item ''Kit'' ''4.10''] True"
  let ?url = "''https://godotengine.org/asset-library/asset/7''"
  have fresh: "map_of (asset_dict init_scraper) ?url = None"
    by (simp add: init_scraper_def)
  have seen: "tags_seen ?url (run_records ?w 1 init_scraper) = [''4.2'', ''4.10'']"
    by code_simp
  have twice: "1 < length (tags_seen ?url (run_records ?w 1 init_scraper))"
    by (simp add: seen)
  have both: "set (tags_seen ?url (run_records ?w 1 init_scraper)) = {''4.2'', ''4.10''}"
    by (simp add: seen)
  from stored_tag_is_maximum [OF fresh twice] fresh twice both show ?thesis by blast
qed

end
